theory Spec2Isabelle
  imports Main
begin

section \<open>nativescript-tasks: the Task state machine and the function decomposition\<close>

text \<open>
  The development follows \<^verbatim>\<open>index.ts\<close> (class \<^verbatim>\<open>Task\<close>, \<^verbatim>\<open>newTask\<close>,
  \<^verbatim>\<open>startNew\<close>) and its compiled companion \<^verbatim>\<open>index.js\<close>. JavaScript values,
  the property-change notifications of \<^verbatim>\<open>Observable\<close>, the promise and the
  \<^verbatim>\<open>Worker\<close> are made explicit: every mutation is a new record, every
  \<^verbatim>\<open>throw\<close> is a value.
\<close>

subsection \<open>JavaScript values\<close>

text \<open>
  The values that flow through a task. Numbers are the integers (no fractions, no NaN).
  A function value is its source text, which is what \<^verbatim>\<open>'' + func\<close> reads.
  An error object carries a reference (its identity on the heap): \<^verbatim>\<open>!==\<close> on objects
  compares identities, so two \<^verbatim>\<open>Error\<close> objects with equal messages are different
  values as soon as their references differ.
\<close>

datatype jsval =
    JUndefined
  | JNull
  | JBool bool
  | JNum int
  | JStr string
  | JFunc string
  | JError nat string string

fun truthy :: "jsval \<Rightarrow> bool" where
  "truthy JUndefined = False"
| "truthy JNull = False"
| "truthy (JBool b) = b"
| "truthy (JNum n) = (n \<noteq> 0)"
| "truthy (JStr s) = (s \<noteq> [])"
| "truthy (JFunc src) = True"
| "truthy (JError r n m) = True"

fun typeof :: "jsval \<Rightarrow> string" where
  "typeof JUndefined = ''undefined''"
| "typeof JNull = ''object''"
| "typeof (JBool b) = ''boolean''"
| "typeof (JNum n) = ''number''"
| "typeof (JStr s) = ''string''"
| "typeof (JFunc src) = ''function''"
| "typeof (JError r n m) = ''object''"

text \<open>\<^verbatim>\<open>TypeUtils.isNullOrUndefined\<close> of the NativeScript core modules.\<close>

definition isNullOrUndefined :: "jsval \<Rightarrow> bool" where
  "isNullOrUndefined v \<longleftrightarrow> v = JUndefined \<or> v = JNull"

fun digits :: "nat \<Rightarrow> string" where
  "digits n =
     (if n < 10 then [char_of (48 + n)]
      else digits (n div 10) @ [char_of (48 + n mod 10)])"

declare digits.simps [simp del]

text \<open>String conversion, as in \<^verbatim>\<open>'' + v\<close>.\<close>

fun ToString :: "jsval \<Rightarrow> string" where
  "ToString JUndefined = ''undefined''"
| "ToString JNull = ''null''"
| "ToString (JBool b) = (if b then ''true'' else ''false'')"
| "ToString (JNum n) = (if n < 0 then ''-'' @ digits (nat (- n)) else digits (nat n))"
| "ToString (JStr s) = s"
| "ToString (JFunc src) = src"
| "ToString (JError r n m) =
     (if m = [] then n else if n = [] then m else n @ '': '' @ m)"

subsection \<open>The string operations of the decomposition\<close>

text \<open>
  Strings are lists of code units below 256. In that range \<^verbatim>\<open>\s\<close> is TAB, LF, VT, FF,
  CR, SPACE and NBSP, and the line terminators are LF and CR.
\<close>

definition is_white_space :: "char \<Rightarrow> bool" where
  "is_white_space c \<longleftrightarrow>
     c \<in> set [CHR 0x09, CHR 0x0A, CHR 0x0B, CHR 0x0C, CHR 0x0D, CHR 0x20, CHR 0xA0]"

definition is_line_terminator :: "char \<Rightarrow> bool" where
  "is_line_terminator c \<longleftrightarrow> c = CHR 0x0A \<or> c = CHR 0x0D"

text \<open>
  \<^verbatim>\<open>funcStr.match(/function[^{]+\{([\s\S]*)\}$/)\<close>: the pattern tried at the start of
  \<open>s\<close>. After the keyword, \<^verbatim>\<open>[^{]+\<close> takes at least one character up to the first
  brace, and the group is everything between that brace and a closing brace that ends
  the text.
\<close>

definition match_here :: "string \<Rightarrow> string option" where
  "match_here s =
     (if take 8 s = ''function'' then
        (let rest = drop 8 s;
             pre = takeWhile (\<lambda>c. c \<noteq> CHR ''{'') rest;
             post = dropWhile (\<lambda>c. c \<noteq> CHR ''{'') rest
         in case post of
              [] \<Rightarrow> None
            | b # tail \<Rightarrow>
                if pre \<noteq> [] \<and> tail \<noteq> [] \<and> last tail = CHR ''}''
                then Some (butlast tail) else None)
      else None)"

text \<open>The leftmost position where the pattern matches; \<open>None\<close> is \<^verbatim>\<open>null\<close>.\<close>

fun match_body :: "string \<Rightarrow> string option" where
  "match_body [] = None"
| "match_body (c # cs) =
     (case match_here (c # cs) of
        Some b \<Rightarrow> Some b
      | None \<Rightarrow> match_body cs)"

text \<open>
  \<^verbatim>\<open>.replace(/[/][/].*$/mg, '')\<close>: from two slashes to the end of the line. The flag
  says whether the scan is inside such a comment.
\<close>

fun strip_line_comments :: "bool \<Rightarrow> string \<Rightarrow> string" where
  "strip_line_comments inside [] = []"
| "strip_line_comments True (c # cs) =
     (if is_line_terminator c then c # strip_line_comments False cs
      else strip_line_comments True cs)"
| "strip_line_comments False (c # cs) =
     (if c = CHR ''/'' \<and> (case cs of [] \<Rightarrow> False | d # ds \<Rightarrow> d = CHR ''/'')
      then strip_line_comments True cs
      else c # strip_line_comments False cs)"

text \<open>\<^verbatim>\<open>.replace(/\s+/g, '')\<close>\<close>

definition strip_white_space :: "string \<Rightarrow> string" where
  "strip_white_space s = filter (\<lambda>c. \<not> is_white_space c) s"

text \<open>
  \<^verbatim>\<open>.replace(/[/][*][^/*]*[*][/]/g, '')\<close>: \<open>comment_end cs\<close> is what follows the
  comment when \<open>cs\<close> is the text after an opening \<^verbatim>\<open>/*\<close>; the comment may hold
  neither a slash nor a star before its end.
\<close>

definition comment_end :: "string \<Rightarrow> string option" where
  "comment_end cs =
     (case dropWhile (\<lambda>c. c \<noteq> CHR ''/'' \<and> c \<noteq> CHR ''*'') cs of
        a # b # rest \<Rightarrow> if a = CHR ''*'' \<and> b = CHR ''/'' then Some rest else None
      | _ \<Rightarrow> None)"

function strip_block_comments :: "string \<Rightarrow> string" where
  "strip_block_comments [] = []"
| "strip_block_comments (c # cs) =
     (if c = CHR ''/'' \<and> (case cs of [] \<Rightarrow> False | d # ds \<Rightarrow> d = CHR ''*'')
      then (case comment_end (tl cs) of
              Some rest \<Rightarrow> strip_block_comments rest
            | None \<Rightarrow> c # strip_block_comments cs)
      else c # strip_block_comments cs)"
  by pat_completeness auto
termination
proof (relation "measure length")
  show "wf (measure length)" by simp
next
  fix c :: char and cs rest :: string
  assume h: "comment_end (tl cs) = Some rest"
  let ?d = "dropWhile (\<lambda>c. c \<noteq> CHR ''/'' \<and> c \<noteq> CHR ''*'') (tl cs)"
  from h obtain a b where "?d = a # b # rest"
    by (auto simp: comment_end_def split: list.splits if_splits)
  then have "length rest < length ?d" by simp
  moreover have "length ?d \<le> length (tl cs)" by (rule length_dropWhile_le)
  ultimately show "(rest, c # cs) \<in> measure length" by simp
qed simp_all

text \<open>\<^verbatim>\<open>.split('){', 1)[0]\<close>: the text before the first occurrence of the separator.\<close>

fun split_first :: "string \<Rightarrow> string \<Rightarrow> string" where
  "split_first sep [] = []"
| "split_first sep (c # cs) =
     (if take (length sep) (c # cs) = sep then [] else c # split_first sep cs)"

text \<open>\<^verbatim>\<open>.replace(/^[^(]*[(]/, '')\<close>: drop everything up to the first parenthesis.\<close>

definition strip_to_paren :: "string \<Rightarrow> string" where
  "strip_to_paren s =
     (case dropWhile (\<lambda>c. c \<noteq> CHR ''('') s of
        [] \<Rightarrow> s
      | p # rest \<Rightarrow> rest)"

text \<open>
  \<^verbatim>\<open>.replace(/=[^,]+/g, '')\<close>: an equals sign with at least one character that is not
  a comma after it, up to the next comma. The flag says whether the scan is inside such
  a match.
\<close>

fun strip_defaults :: "bool \<Rightarrow> string \<Rightarrow> string" where
  "strip_defaults inside [] = []"
| "strip_defaults True (c # cs) =
     (if c = CHR '','' then c # strip_defaults False cs
      else strip_defaults True cs)"
| "strip_defaults False (c # cs) =
     (if c = CHR ''='' \<and> (case cs of [] \<Rightarrow> False | d # ds \<Rightarrow> d \<noteq> CHR '','')
      then strip_defaults True cs
      else c # strip_defaults False cs)"

text \<open>\<^verbatim>\<open>.split(',')\<close>, with the piece being read in \<open>cur\<close> (reversed).\<close>

fun split_on :: "char \<Rightarrow> string \<Rightarrow> string \<Rightarrow> string list" where
  "split_on sep cur [] = [rev cur]"
| "split_on sep cur (c # cs) =
     (if c = sep then rev cur # split_on sep [] cs
      else split_on sep (c # cur) cs)"

text \<open>The chain that computes \<^verbatim>\<open>func.args\<close> from \<^verbatim>\<open>funcStr\<close>.\<close>

definition func_args :: "string \<Rightarrow> string list" where
  "func_args funcStr =
     filter (\<lambda>x. x \<noteq> [])
       (split_on (CHR '','') []
          (strip_defaults False
             (strip_to_paren
                (split_first ''){''
                   (strip_block_comments
                      (strip_white_space
                         (strip_line_comments False funcStr)))))))"

subsection \<open>The task, its notifications, the promise and the worker\<close>

datatype TaskStatus = Created | Faulted | RanToCompletion | Running | WaitingToRun

text \<open>The numeric values of the enum and its reverse mapping \<^verbatim>\<open>TaskStatus[n]\<close>.\<close>

fun TaskStatus_value :: "TaskStatus \<Rightarrow> int" where
  "TaskStatus_value Created = 0"
| "TaskStatus_value Faulted = 1"
| "TaskStatus_value RanToCompletion = 2"
| "TaskStatus_value Running = 3"
| "TaskStatus_value WaitingToRun = 4"

fun TaskStatus_name :: "TaskStatus option \<Rightarrow> string" where
  "TaskStatus_name None = ''undefined''"
| "TaskStatus_name (Some Created) = ''Created''"
| "TaskStatus_name (Some Faulted) = ''Faulted''"
| "TaskStatus_name (Some RanToCompletion) = ''RanToCompletion''"
| "TaskStatus_name (Some Running) = ''Running''"
| "TaskStatus_name (Some WaitingToRun) = ''WaitingToRun''"

text \<open>
  A task: the three fields of the class and, for \<^verbatim>\<open>Observable\<close>, the list of the
  \<^verbatim>\<open>notifyPropertyChange(name, value)\<close> calls made so far, oldest first. The status
  is \<open>None\<close> (\<^verbatim>\<open>undefined\<close>) until the constructor sets it.
\<close>

record Task =
  f_FUNC :: jsval
  f_error :: jsval
  f_status :: "TaskStatus option"
  notifications :: "(string \<times> jsval) list"

text \<open>
  What the promise of one \<^verbatim>\<open>start\<close> call settles with:
  \<^verbatim>\<open>resolve({data, state})\<close> or \<^verbatim>\<open>reject({error, state})\<close>.
\<close>

datatype settlement = Resolved jsval jsval | Rejected jsval jsval

text \<open>A promise settles once; later calls of \<^verbatim>\<open>resolve\<close> or \<^verbatim>\<open>reject\<close> are ignored.\<close>

definition settle :: "settlement \<Rightarrow> settlement option \<Rightarrow> settlement option" where
  "settle s p = (case p of None \<Rightarrow> Some s | Some s0 \<Rightarrow> Some s0)"

record DecomposedFunc =
  body :: string
  args :: "string list"

text \<open>The object given to \<^verbatim>\<open>JSON.stringify\<close> and posted to the worker.\<close>

record Message =
  m_func :: "DecomposedFunc option"
  m_state :: jsval

record Worker =
  script :: string
  terminated :: bool
  posted :: "Message list"

definition terminate :: "Worker \<Rightarrow> Worker" where
  "terminate w = w\<lparr>terminated := True\<rparr>"

text \<open>
  What the platform decides during one \<^verbatim>\<open>start\<close> call: whether
  \<^verbatim>\<open>new Worker('./worker')\<close> throws, whether \<^verbatim>\<open>JSON.stringify\<close> or
  \<^verbatim>\<open>worker.postMessage\<close> throws (the name and the message of the error object
  thrown), the reference of the next object allocated, and the message the engine puts
  into the \<^verbatim>\<open>TypeError\<close> of indexing \<^verbatim>\<open>null\<close>.
\<close>

record Env =
  new_Worker_throws :: "(string \<times> string) option"
  postMessage_throws :: "(string \<times> string) option"
  fresh_ref :: nat
  TypeError_message :: string

text \<open>
  One \<^verbatim>\<open>start\<close> call: the task it works on, its promise (\<open>None\<close> while pending)
  and the worker it created, if any.
\<close>

record start_call =
  task :: Task
  promise :: "settlement option"
  worker :: "Worker option"

subsection \<open>The class Task\<close>

definition updateError :: "jsval \<Rightarrow> Task \<Rightarrow> Task \<times> bool" where
  "updateError newValue this =
     (if newValue \<noteq> f_error this then
        (this\<lparr>f_error := newValue,
              notifications := notifications this @ [(''error'', newValue)]\<rparr>, True)
      else (this, False))"

definition updateStatus :: "TaskStatus \<Rightarrow> Task \<Rightarrow> Task \<times> bool" where
  "updateStatus newValue this =
     (if Some newValue \<noteq> f_status this then
        (this\<lparr>f_status := Some newValue,
              notifications := notifications this
                @ [(''status'', JNum (TaskStatus_value newValue))]\<rparr>, True)
      else (this, False))"

text \<open>The constructor; \<open>Inl\<close> is the thrown value.\<close>

definition Task_new :: "jsval \<Rightarrow> jsval + Task" where
  "Task_new func =
     (if \<not> isNullOrUndefined func \<and> typeof func \<noteq> ''function''
      then Inl (JStr '''func' must be a function!'')
      else Inr (fst (updateStatus Created
             \<lparr>f_FUNC = func, f_error = JUndefined, f_status = None, notifications = []\<rparr>)))"

definition newTask :: "jsval \<Rightarrow> jsval + Task" where
  "newTask func = Task_new func"

text \<open>The closure \<^verbatim>\<open>completed\<close> of \<^verbatim>\<open>start\<close>.\<close>

definition completed :: "jsval \<Rightarrow> jsval \<Rightarrow> jsval \<Rightarrow> start_call \<Rightarrow> start_call" where
  "completed state err data c =
     c\<lparr>promise := settle (if truthy err then Rejected err state else Resolved data state)
                    (promise c),
       task := fst (updateError err (task c))\<rparr>"

text \<open>
  The decomposition inside \<^verbatim>\<open>start\<close>: \<open>Inr None\<close> when there is no function,
  \<open>Inl\<close> the \<^verbatim>\<open>TypeError\<close> of \<^verbatim>\<open>null[1]\<close> when the pattern does not match.
\<close>

definition decompose :: "Env \<Rightarrow> jsval \<Rightarrow> jsval + DecomposedFunc option" where
  "decompose env f =
     (if truthy f then
        (let funcStr = ToString f in
         case match_body funcStr of
           None \<Rightarrow> Inl (JError (fresh_ref env) ''TypeError'' (TypeError_message env))
         | Some b \<Rightarrow> Inr (Some \<lparr>body = b, args = func_args funcStr\<rparr>))
      else Inr None)"

text \<open>The \<^verbatim>\<open>catch (e)\<close> block.\<close>

definition start_catch :: "jsval \<Rightarrow> jsval \<Rightarrow> start_call \<Rightarrow> start_call" where
  "start_catch state e c =
     completed state e JUndefined (c\<lparr>task := fst (updateStatus Faulted (task c))\<rparr>)"

text \<open>The \<^verbatim>\<open>try\<close> block.\<close>

definition start_try :: "Env \<Rightarrow> jsval \<Rightarrow> start_call \<Rightarrow> start_call" where
  "start_try env state c0 =
     (let c1 = c0\<lparr>task := fst (updateStatus WaitingToRun (task c0))\<rparr> in
      case new_Worker_throws env of
        Some (n, m) \<Rightarrow> start_catch state (JError (fresh_ref env) n m) c1
      | None \<Rightarrow>
          (let c2 = c1\<lparr>worker :=
                       Some \<lparr>script = ''./worker'', terminated = False, posted = []\<rparr>\<rparr> in
           case decompose env (f_FUNC (task c2)) of
             Inl e \<Rightarrow> start_catch state e c2
           | Inr func \<Rightarrow>
               (let c3 = c2\<lparr>task := fst (updateStatus Running (task c2))\<rparr> in
                case postMessage_throws env of
                  Some (n, m) \<Rightarrow> start_catch state (JError (fresh_ref env) n m) c3
                | None \<Rightarrow>
                    c3\<lparr>worker := map_option
                         (\<lambda>w. w\<lparr>posted := posted w @ [\<lparr>m_func = func, m_state = state\<rparr>]\<rparr>)
                         (worker c3)\<rparr>)))"

text \<open>The executor of the promise that \<^verbatim>\<open>start\<close> returns.\<close>

definition start :: "Env \<Rightarrow> jsval \<Rightarrow> Task \<Rightarrow> start_call" where
  "start env state me =
     (let c0 = \<lparr>task = me, promise = None, worker = None\<rparr> in
      if f_status me = Some Created \<or> f_status me = Some Faulted
         \<or> f_status me = Some RanToCompletion
      then start_try env state c0
      else completed state
             (JError (fresh_ref env) ''Error''
                (''Cannot start while in '' @ [CHR 0x27] @ TaskStatus_name (f_status me)
                   @ [CHR 0x27] @ '' state!''))
             JUndefined c0)"

definition startNew :: "Env \<Rightarrow> jsval \<Rightarrow> jsval \<Rightarrow> jsval + start_call" where
  "startNew env func state =
     (case newTask func of
        Inl e \<Rightarrow> Inl e
      | Inr t \<Rightarrow> Inr (start env state t))"

subsection \<open>The handlers of the worker\<close>

text \<open>
  \<^verbatim>\<open>JSON.parse\<close> belongs to the engine: the grammar is a parameter (\<open>None\<close> is the
  thrown \<^verbatim>\<open>SyntaxError\<close>). Its argument is converted to a string first, and a JSON
  text begins, after white space, with a brace, a bracket, a double quote, a minus sign,
  a digit, or the first letter of \<^verbatim>\<open>true\<close>, \<^verbatim>\<open>false\<close>, \<^verbatim>\<open>null\<close>; any other
  text is a syntax error under every grammar, the empty text and \<^verbatim>\<open>undefined\<close>
  among them.
\<close>

definition starts_json_value :: "string \<Rightarrow> bool" where
  "starts_json_value s =
     (case dropWhile (\<lambda>c. c \<in> set [CHR 0x20, CHR 0x09, CHR 0x0A, CHR 0x0D]) s of
        [] \<Rightarrow> False
      | c # cs \<Rightarrow> c \<in> set (CHR 0x22 # ''{[-0123456789tfn''))"

definition JSON_parse :: "(string \<Rightarrow> jsval option) \<Rightarrow> jsval \<Rightarrow> jsval option" where
  "JSON_parse grammar text =
     (let s = ToString text in if starts_json_value s then grammar s else None)"

text \<open>
  \<^verbatim>\<open>worker.onmessage\<close> of \<^verbatim>\<open>index.ts\<close>; \<open>received\<close> is its
  \<^verbatim>\<open>let result = msg.data; if (result) { result = JSON.parse(result); }\<close>. When
  \<^verbatim>\<open>JSON.parse\<close> throws, the handler ends there: the worker is terminated and nothing
  else has happened.
\<close>

definition received :: "(string \<Rightarrow> jsval option) \<Rightarrow> jsval \<Rightarrow> jsval option" where
  "received grammar msg_data =
     (let result = msg_data in
      if truthy result then JSON_parse grammar result else Some result)"

definition worker_onmessage ::
    "(string \<Rightarrow> jsval option) \<Rightarrow> jsval \<Rightarrow> jsval \<Rightarrow> start_call \<Rightarrow> start_call" where
  "worker_onmessage grammar state msg_data c =
     (let c1 = c\<lparr>worker := map_option terminate (worker c)\<rparr> in
      case received grammar msg_data of
        None \<Rightarrow> c1
      | Some result \<Rightarrow>
          completed state JNull result
            (c1\<lparr>task := fst (updateStatus RanToCompletion (task c1))\<rparr>))"

text \<open>
  \<^verbatim>\<open>worker_1.onmessage\<close> of the compiled \<^verbatim>\<open>index.js\<close>: the status is updated
  first and the payload is parsed whatever it is.
\<close>

definition worker_onmessage_js ::
    "(string \<Rightarrow> jsval option) \<Rightarrow> jsval \<Rightarrow> jsval \<Rightarrow> start_call \<Rightarrow> start_call" where
  "worker_onmessage_js grammar state msg_data c =
     (let c1 = c\<lparr>worker := map_option terminate (worker c)\<rparr>;
          c2 = c1\<lparr>task := fst (updateStatus RanToCompletion (task c1))\<rparr> in
      case JSON_parse grammar msg_data of
        None \<Rightarrow> c2
      | Some result \<Rightarrow> completed state JNull result c2)"

text \<open>\<^verbatim>\<open>worker.onerror\<close>, the same in both files.\<close>

definition worker_onerror :: "jsval \<Rightarrow> jsval \<Rightarrow> start_call \<Rightarrow> start_call" where
  "worker_onerror state err c =
     completed state err JUndefined (c\<lparr>task := fst (updateStatus Faulted (task c))\<rparr>)"

subsection \<open>The worker script\<close>

text \<open>
  Modelled from the spec: the worker script \<^verbatim>\<open>./worker\<close> is not among the sources.
  The spec has the isolated context "reconstruct a callable from body and parameterNames
  (a function literal with those parameters and that body), invoke it with a single
  context argument \<^verbatim>\<open>{state: message.state}\<close>", and it binds that argument to the
  first declared parameter. \<open>invoke_reconstructed\<close> is the value such a callable
  returns, for the bodies that are one statement \<^verbatim>\<open>return e;\<close> on one line, where
  \<^verbatim>\<open>e\<close> is a sum of decimal integer literals and of reads \<^verbatim>\<open>p.state\<close> through the
  first parameter \<^verbatim>\<open>p\<close>, with every number and every partial sum an integer that a
  JavaScript number holds exactly. \<open>None\<close> is everything else, every throw included:
  nothing is said about it. What follows up to \<open>invoke_reconstructed\<close> reads such a
  body: the tokens, the identifiers a parameter may be, the literals, the operands.
\<close>

datatype token = TWord string | TSym char | TSpace

definition is_digit :: "char \<Rightarrow> bool" where
  "is_digit c \<longleftrightarrow> c \<in> set ''0123456789''"

definition is_word_char :: "char \<Rightarrow> bool" where
  "is_word_char c \<longleftrightarrow>
     c \<in> set ''abcdefghijklmnopqrstuvwxyzABCDEFGHIJKLMNOPQRSTUVWXYZ0123456789_$''"

text \<open>
  Modelled from the spec: the tokens of a body. A word is a run of letters, digits,
  \<^verbatim>\<open>_\<close> and \<^verbatim>\<open>$\<close>; white space ends a word; every other character is a token of
  its own.
\<close>

fun lex :: "string \<Rightarrow> token list" where
  "lex [] = []"
| "lex (c # cs) =
     (if is_white_space c then TSpace # lex cs
      else if is_word_char c then
        (case lex cs of
           TWord w # ts \<Rightarrow> TWord (c # w) # ts
         | ts \<Rightarrow> TWord [c] # ts)
      else TSym c # lex cs)"

text \<open>
  Modelled from the spec: a parameter name is an identifier that is not a reserved word.
\<close>

definition reserved_words :: "string list" where
  "reserved_words =
     [''await'', ''break'', ''case'', ''catch'', ''class'', ''const'', ''continue'',
      ''debugger'', ''default'', ''delete'', ''do'', ''else'', ''enum'', ''export'',
      ''extends'', ''false'', ''finally'', ''for'', ''function'', ''if'', ''implements'',
      ''import'', ''in'', ''instanceof'', ''interface'', ''let'', ''new'', ''null'',
      ''package'', ''private'', ''protected'', ''public'', ''return'', ''static'', ''super'',
      ''switch'', ''this'', ''throw'', ''true'', ''try'', ''typeof'', ''var'', ''void'',
      ''while'', ''with'', ''yield'']"

definition valid_identifier :: "string \<Rightarrow> bool" where
  "valid_identifier w \<longleftrightarrow>
     w \<noteq> [] \<and> list_all is_word_char w \<and> \<not> is_digit (hd w) \<and> w \<notin> set reserved_words"

text \<open>
  Modelled from the spec: the integers a JavaScript number holds exactly, and the decimal
  literals for them (a leading zero would make the literal octal).
\<close>

definition safe_integer :: "int \<Rightarrow> bool" where
  "safe_integer n \<longleftrightarrow> - 9007199254740991 \<le> n \<and> n \<le> 9007199254740991"

definition number_literal :: "string \<Rightarrow> int option" where
  "number_literal w =
     (if w \<noteq> [] \<and> list_all is_digit w \<and> \<not> (1 < length w \<and> hd w = CHR ''0'')
      then (let n = int (foldl (\<lambda>a c. 10 * a + (of_char c - 48)) 0 w)
            in if safe_integer n then Some n else None)
      else None)"

text \<open>Modelled from the spec: the operands of a sum are the tokens between the plus signs.\<close>

fun split_plus :: "token list \<Rightarrow> token list \<Rightarrow> token list list" where
  "split_plus cur [] = [rev cur]"
| "split_plus cur (t # ts) =
     (if t = TSym (CHR ''+'') then rev cur # split_plus [] ts
      else split_plus (t # cur) ts)"

text \<open>
  Modelled from the spec: the value of an operand, a literal or the read of the state
  through the first parameter, which holds the context.
\<close>

definition operand :: "string list \<Rightarrow> jsval \<Rightarrow> token list \<Rightarrow> int option" where
  "operand params state ts =
     (case ts of
        [TWord w] \<Rightarrow> number_literal w
      | [TWord p, TSym d, TWord f] \<Rightarrow>
          if d = CHR ''.'' \<and> take 1 params = [p] \<and> f = ''state''
          then (case state of
                  JNum k \<Rightarrow> if safe_integer k then Some k else None
                | _ \<Rightarrow> None)
          else None
      | _ \<Rightarrow> None)"

text \<open>Modelled from the spec: the sum, from the left, while it stays exact.\<close>

fun sum_operands :: "int \<Rightarrow> int option list \<Rightarrow> int option" where
  "sum_operands acc [] = Some acc"
| "sum_operands acc (None # vs) = None"
| "sum_operands acc (Some v # vs) =
     (if safe_integer (acc + v) then sum_operands (acc + v) vs else None)"

text \<open>
  Modelled from the spec: the callable with the parameters \<open>args func\<close> and the body
  \<open>body func\<close>, invoked with the context that holds \<open>state\<close>.
\<close>

definition invoke_reconstructed :: "DecomposedFunc \<Rightarrow> jsval \<Rightarrow> jsval option" where
  "invoke_reconstructed func state =
     (if list_all valid_identifier (args func) \<and> distinct (args func)
         \<and> \<not> list_ex is_line_terminator (body func)
      then (case filter (\<lambda>t. t \<noteq> TSpace) (lex (body func)) of
              TWord r # rest \<Rightarrow>
                if r = ''return'' \<and> rest \<noteq> [] \<and> last rest = TSym (CHR '';'')
                then (case map (operand (args func) state) (split_plus [] (butlast rest)) of
                        Some v # vs \<Rightarrow> map_option JNum (sum_operands v vs)
                      | _ \<Rightarrow> None)
                else None
            | _ \<Rightarrow> None)
      else None)"

subsection \<open>Reading the notifications\<close>

text \<open>The notifications a task has emitted since an earlier state of it.\<close>

definition notified_since :: "Task \<Rightarrow> Task \<Rightarrow> (string \<times> jsval) list" where
  "notified_since old new = drop (length (notifications old)) (notifications new)"

text \<open>The values announced for one property, in order.\<close>

definition changes_of :: "string \<Rightarrow> (string \<times> jsval) list \<Rightarrow> jsval list" where
  "changes_of name ns = map snd (filter (\<lambda>n. fst n = name) ns)"

definition status_note :: "TaskStatus \<Rightarrow> jsval" where
  "status_note s = JNum (TaskStatus_value s)"

subsection \<open>The paths through \<open>start\<close>\<close>

text \<open>The statuses that the \<^verbatim>\<open>switch\<close> of \<^verbatim>\<open>start\<close> lets through.\<close>

definition startable :: "Task \<Rightarrow> bool" where
  "startable me \<longleftrightarrow>
     f_status me = Some Created \<or> f_status me = Some Faulted
     \<or> f_status me = Some RanToCompletion"

text \<open>The exception that reaches the \<^verbatim>\<open>catch\<close> block, if one is thrown in the \<^verbatim>\<open>try\<close> block.\<close>

definition thrown_in_try :: "Env \<Rightarrow> Task \<Rightarrow> jsval option" where
  "thrown_in_try env me =
     (case new_Worker_throws env of
        Some (n, m) \<Rightarrow> Some (JError (fresh_ref env) n m)
      | None \<Rightarrow>
          (case decompose env (f_FUNC me) of
             Inl e \<Rightarrow> Some e
           | Inr func \<Rightarrow>
               (case postMessage_throws env of
                  Some (n, m) \<Rightarrow> Some (JError (fresh_ref env) n m)
                | None \<Rightarrow> None)))"

subsection \<open>Concrete inputs\<close>

definition example_env :: Env where
  "example_env =
     \<lparr>new_Worker_throws = None, postMessage_throws = None, fresh_ref = 7,
      TypeError_message = ''null is not an object''\<rparr>"

text \<open>A task as the constructor leaves it.\<close>

definition example_created :: Task where
  "example_created =
     \<lparr>f_FUNC = JFunc ''function (ctx) { return ctx.state; }'', f_error = JUndefined,
      f_status = Some Created, notifications = [(''status'', JNum 0)]\<rparr>"

text \<open>A task in status \<open>Running\<close>: its first \<^verbatim>\<open>start\<close> is pending.\<close>

definition example_running :: Task where
  "example_running =
     \<lparr>f_FUNC = JFunc ''function (ctx) { return ctx.state; }'', f_error = JUndefined,
      f_status = Some Running,
      notifications = [(''status'', JNum 0), (''status'', JNum 4), (''status'', JNum 3)]\<rparr>"

text \<open>The pending call that put it there, with its worker.\<close>

definition example_pending :: start_call where
  "example_pending =
     \<lparr>task = example_running, promise = None,
      worker = Some \<lparr>script = ''./worker'', terminated = False,
        posted = [\<lparr>m_func = Some \<lparr>body = '' return ctx.state; '', args = [''ctx'']\<rparr>,
                   m_state = JNum 30\<rparr>]\<rparr>\<rparr>"

section \<open>Properties\<close>

subsection \<open>What the two updates and \<open>completed\<close> do to each field\<close>

lemma updateStatus_status: "f_status (fst (updateStatus v t)) = Some v"
  by (simp add: updateStatus_def)

lemma updateStatus_error: "f_error (fst (updateStatus v t)) = f_error t"
  by (simp add: updateStatus_def)

lemma updateStatus_FUNC: "f_FUNC (fst (updateStatus v t)) = f_FUNC t"
  by (simp add: updateStatus_def)

lemma updateStatus_notifications:
  "notifications (fst (updateStatus v t)) =
     notifications t @ (if Some v \<noteq> f_status t then [(''status'', status_note v)] else [])"
  by (simp add: updateStatus_def status_note_def)

lemma updateError_status: "f_status (fst (updateError v t)) = f_status t"
  by (simp add: updateError_def)

lemma updateError_error: "f_error (fst (updateError v t)) = v"
  by (simp add: updateError_def)

lemma updateError_FUNC: "f_FUNC (fst (updateError v t)) = f_FUNC t"
  by (simp add: updateError_def)

lemma updateError_notifications:
  "notifications (fst (updateError v t)) =
     notifications t @ (if v \<noteq> f_error t then [(''error'', v)] else [])"
  by (simp add: updateError_def)

lemma completed_task: "task (completed state err data c) = fst (updateError err (task c))"
  by (simp add: completed_def)

lemma completed_promise:
  "promise (completed state err data c) =
     settle (if truthy err then Rejected err state else Resolved data state) (promise c)"
  by (simp add: completed_def)

lemma completed_worker: "worker (completed state err data c) = worker c"
  by (simp add: completed_def)

lemmas task_simps =
  updateStatus_status updateStatus_error updateStatus_FUNC
  updateError_status updateError_error updateError_FUNC
  completed_task completed_promise completed_worker

lemma notified_since_append:
  "notifications new = notifications old @ ns \<Longrightarrow> notified_since old new = ns"
  by (simp add: notified_since_def)

subsection \<open>The ways through the try block\<close>

lemma start_try_worker_throws:
  "new_Worker_throws env = Some (n, m) \<Longrightarrow>
     start_try env state c0 =
       start_catch state (JError (fresh_ref env) n m)
         (c0\<lparr>task := fst (updateStatus WaitingToRun (task c0))\<rparr>)"
  by (simp add: start_try_def Let_def)

lemma start_try_decompose_fails:
  "new_Worker_throws env = None \<Longrightarrow> decompose env (f_FUNC (task c0)) = Inl e \<Longrightarrow>
     start_try env state c0 =
       start_catch state e
         (c0\<lparr>task := fst (updateStatus WaitingToRun (task c0)),
             worker := Some \<lparr>script = ''./worker'', terminated = False, posted = []\<rparr>\<rparr>)"
  by (simp add: start_try_def Let_def updateStatus_FUNC)

lemma start_try_post_throws:
  "new_Worker_throws env = None \<Longrightarrow> decompose env (f_FUNC (task c0)) = Inr func \<Longrightarrow>
   postMessage_throws env = Some (n, m) \<Longrightarrow>
     start_try env state c0 =
       start_catch state (JError (fresh_ref env) n m)
         (c0\<lparr>worker := Some \<lparr>script = ''./worker'', terminated = False, posted = []\<rparr>,
             task := fst (updateStatus Running (fst (updateStatus WaitingToRun (task c0))))\<rparr>)"
  by (simp add: start_try_def Let_def updateStatus_FUNC)

lemma start_try_posted:
  "new_Worker_throws env = None \<Longrightarrow> decompose env (f_FUNC (task c0)) = Inr func \<Longrightarrow>
   postMessage_throws env = None \<Longrightarrow>
     start_try env state c0 =
       c0\<lparr>task := fst (updateStatus Running (fst (updateStatus WaitingToRun (task c0)))),
          worker := Some \<lparr>script = ''./worker'', terminated = False,
                          posted = [\<lparr>m_func = func, m_state = state\<rparr>]\<rparr>\<rparr>"
  by (simp add: start_try_def Let_def updateStatus_FUNC)

lemma start_catch_task:
  "task (start_catch state e c) = fst (updateError e (fst (updateStatus Faulted (task c))))"
  by (simp add: start_catch_def completed_def)

lemma start_catch_promise:
  "promise (start_catch state e c) =
     settle (if truthy e then Rejected e state else Resolved JUndefined state) (promise c)"
  by (simp add: start_catch_def completed_def)

lemma start_catch_worker: "worker (start_catch state e c) = worker c"
  by (simp add: start_catch_def completed_def)

lemma decompose_error:
  "decompose env f = Inl e \<Longrightarrow>
     e = JError (fresh_ref env) ''TypeError'' (TypeError_message env)"
  by (auto simp: decompose_def Let_def split: if_splits option.splits)

lemma start_startable:
  "startable me \<Longrightarrow>
     start env state me = start_try env state \<lparr>task = me, promise = None, worker = None\<rparr>"
  by (simp add: start_def startable_def Let_def)

lemma start_not_startable:
  "\<not> startable me \<Longrightarrow>
     start env state me =
       completed state
         (JError (fresh_ref env) ''Error''
            (''Cannot start while in '' @ [CHR 0x27] @ TaskStatus_name (f_status me)
               @ [CHR 0x27] @ '' state!''))
         JUndefined \<lparr>task = me, promise = None, worker = None\<rparr>"
  by (simp add: start_def startable_def Let_def)

subsection \<open>The outcomes of \<open>start\<close>\<close>

lemma thrown_in_try_truthy: "thrown_in_try env me = Some e \<Longrightarrow> truthy e"
  by (auto simp: thrown_in_try_def split: option.splits sum.splits prod.splits dest: decompose_error)

lemma start_try_fails:
  assumes "thrown_in_try env (task c0) = Some e"
  shows "\<exists>c. start_try env state c0 = start_catch state e c \<and> promise c = promise c0
           \<and> f_error (task c) = f_error (task c0) \<and> f_FUNC (task c) = f_FUNC (task c0)"
proof (cases "new_Worker_throws env")
  case (Some p)
  obtain n m where p: "p = (n, m)" by (cases p)
  have e: "e = JError (fresh_ref env) n m" using assms Some p by (simp add: thrown_in_try_def)
  show ?thesis using Some p e
    by (simp add: start_try_worker_throws [of env n m] task_simps)
      (rule exI [of _ "c0\<lparr>task := fst (updateStatus WaitingToRun (task c0))\<rparr>"], simp add: task_simps)
next
  case None
  show ?thesis
  proof (cases "decompose env (f_FUNC (task c0))")
    case (Inl e')
    have e: "e = e'" using assms None Inl by (simp add: thrown_in_try_def)
    show ?thesis using None Inl e
      by (simp add: start_try_decompose_fails [of env c0 e'])
        (rule exI [of _ "c0\<lparr>task := fst (updateStatus WaitingToRun (task c0)),
             worker := Some \<lparr>script = ''./worker'', terminated = False, posted = []\<rparr>\<rparr>"], simp add: task_simps)
  next
    case (Inr func)
    then obtain n m where pm: "postMessage_throws env = Some (n, m)" and e: "e = JError (fresh_ref env) n m"
      using assms None by (auto simp: thrown_in_try_def split: option.splits)
    show ?thesis using None Inr pm e
      by (simp add: start_try_post_throws [of env c0 func n m])
        (rule exI [of _ "c0\<lparr>worker := Some \<lparr>script = ''./worker'', terminated = False, posted = []\<rparr>,
             task := fst (updateStatus Running (fst (updateStatus WaitingToRun (task c0))))\<rparr>"], simp add: task_simps)
  qed
qed

lemma start_fails:
  assumes "startable me" and "thrown_in_try env me = Some e"
  shows "promise (start env state me) = Some (Rejected e state)"
    and "f_error (task (start env state me)) = e"
    and "f_status (task (start env state me)) = Some Faulted"
    and "f_FUNC (task (start env state me)) = f_FUNC me"
proof -
  let ?c0 = "\<lparr>task = me, promise = None, worker = None\<rparr>"
  from assms(2) have "thrown_in_try env (task ?c0) = Some e" by simp
  from start_try_fails [OF this, of state] obtain c where
    c: "start_try env state ?c0 = start_catch state e c" "promise c = None"
       "f_FUNC (task c) = f_FUNC me"
    by auto
  have t: "truthy e" using assms(2) by (rule thrown_in_try_truthy)
  show "promise (start env state me) = Some (Rejected e state)"
    using c t by (simp add: start_startable [OF assms(1)] start_catch_promise settle_def)
  show "f_error (task (start env state me)) = e"
    using c by (simp add: start_startable [OF assms(1)] start_catch_task task_simps)
  show "f_status (task (start env state me)) = Some Faulted"
    using c by (simp add: start_startable [OF assms(1)] start_catch_task task_simps)
  show "f_FUNC (task (start env state me)) = f_FUNC me"
    using c by (simp add: start_startable [OF assms(1)] start_catch_task task_simps)
qed

lemma start_dispatches:
  assumes "startable me" and "thrown_in_try env me = None"
  shows "\<exists>func. decompose env (f_FUNC me) = Inr func \<and>
     start env state me =
       \<lparr>task = fst (updateStatus Running (fst (updateStatus WaitingToRun me))),
        promise = None,
        worker = Some \<lparr>script = ''./worker'', terminated = False,
                       posted = [\<lparr>m_func = func, m_state = state\<rparr>]\<rparr>\<rparr>"
proof -
  let ?c0 = "\<lparr>task = me, promise = None, worker = None\<rparr>"
  from assms(2) obtain func where
    h: "new_Worker_throws env = None" "decompose env (f_FUNC me) = Inr func"
       "postMessage_throws env = None"
    by (auto simp: thrown_in_try_def split: option.splits sum.splits prod.splits)
  have "start_try env state ?c0 =
      ?c0\<lparr>task := fst (updateStatus Running (fst (updateStatus WaitingToRun (task ?c0)))),
          worker := Some \<lparr>script = ''./worker'', terminated = False,
                          posted = [\<lparr>m_func = func, m_state = state\<rparr>]\<rparr>\<rparr>"
    using h by (intro start_try_posted) simp_all
  then show ?thesis using h(2) by (simp add: start_startable [OF assms(1)])
qed

lemma start_pending:
  assumes "startable me" and "thrown_in_try env me = None"
  shows "promise (start env state me) = None"
    and "f_error (task (start env state me)) = f_error me"
    and "f_status (task (start env state me)) = Some Running"
    and "f_FUNC (task (start env state me)) = f_FUNC me"
  using start_dispatches [OF assms, of state] by (auto simp: task_simps)

lemma start_conflict:
  assumes "\<not> startable me"
  shows "promise (start env state me) =
       Some (Rejected (JError (fresh_ref env) ''Error''
               (''Cannot start while in '' @ [CHR 0x27] @ TaskStatus_name (f_status me)
                  @ [CHR 0x27] @ '' state!'')) state)"
    and "f_error (task (start env state me)) =
       JError (fresh_ref env) ''Error''
               (''Cannot start while in '' @ [CHR 0x27] @ TaskStatus_name (f_status me)
                  @ [CHR 0x27] @ '' state!'')"
    and "f_status (task (start env state me)) = f_status me"
    and "f_FUNC (task (start env state me)) = f_FUNC me"
    and "worker (start env state me) = None"
  by (simp_all add: start_not_startable [OF assms] task_simps settle_def)

lemma start_FUNC: "f_FUNC (task (start env state me)) = f_FUNC me"
proof (cases "startable me")
  case True
  then show ?thesis
    by (cases "thrown_in_try env me") (simp_all add: start_pending(4) start_fails(4))
next
  case False
  then show ?thesis by (rule start_conflict(4))
qed

subsection \<open>The handlers\<close>

lemma worker_onerror_task:
  "task (worker_onerror state err c) = fst (updateError err (fst (updateStatus Faulted (task c))))"
  by (simp add: worker_onerror_def completed_def)

lemma worker_onerror_promise:
  "promise (worker_onerror state err c) =
     settle (if truthy err then Rejected err state else Resolved JUndefined state) (promise c)"
  by (simp add: worker_onerror_def completed_def)

lemma worker_onerror_worker: "worker (worker_onerror state err c) = worker c"
  by (simp add: worker_onerror_def completed_def)

lemma worker_onmessage_throws:
  "received grammar msg_data = None \<Longrightarrow>
     worker_onmessage grammar state msg_data c = c\<lparr>worker := map_option terminate (worker c)\<rparr>"
  by (simp add: worker_onmessage_def Let_def)

lemma worker_onmessage_result:
  "received grammar msg_data = Some result \<Longrightarrow>
     worker_onmessage grammar state msg_data c =
       \<lparr>task = fst (updateError JNull (fst (updateStatus RanToCompletion (task c)))),
        promise = settle (Resolved result state) (promise c),
        worker = map_option terminate (worker c)\<rparr>"
  by (simp add: worker_onmessage_def Let_def completed_def)

lemma worker_onmessage_worker:
  "worker (worker_onmessage grammar state msg_data c) = map_option terminate (worker c)"
  by (cases "received grammar msg_data") (simp_all add: worker_onmessage_throws worker_onmessage_result)

lemma worker_onmessage_FUNC:
  "f_FUNC (task (worker_onmessage grammar state msg_data c)) = f_FUNC (task c)"
  by (cases "received grammar msg_data")
    (simp_all add: worker_onmessage_throws worker_onmessage_result task_simps)

subsection \<open>The notifications of each operation\<close>

lemma changes_of_simps:
  "changes_of name [] = []"
  "changes_of name ((k, v) # ns) = (if k = name then v # changes_of name ns else changes_of name ns)"
  "changes_of name (xs @ ys) = changes_of name xs @ changes_of name ys"
  by (simp_all add: changes_of_def)

lemma start_try_status_notes:
  assumes "Some WaitingToRun \<noteq> f_status (task c0)"
  shows "notifications (task (start_try env state c0)) =
     notifications (task c0)
       @ (if new_Worker_throws env \<noteq> None \<or> isl (decompose env (f_FUNC (task c0)))
          then [(''status'', status_note WaitingToRun), (''status'', status_note Faulted)]
          else if postMessage_throws env \<noteq> None
          then [(''status'', status_note WaitingToRun), (''status'', status_note Running),
                (''status'', status_note Faulted)]
          else [(''status'', status_note WaitingToRun), (''status'', status_note Running)])
       @ (if f_error (task (start_try env state c0)) \<noteq> f_error (task c0)
          then [(''error'', f_error (task (start_try env state c0)))] else [])"
proof (cases "new_Worker_throws env")
  case (Some p)
  obtain n m where p: "p = (n, m)" by (cases p)
  show ?thesis using assms Some p
    by (simp add: start_try_worker_throws [of env n m] start_catch_task
          updateError_notifications updateStatus_notifications task_simps)
next
  case None
  show ?thesis
  proof (cases "decompose env (f_FUNC (task c0))")
    case (Inl e)
    show ?thesis using assms None Inl
      by (simp add: start_try_decompose_fails [of env c0 e] start_catch_task
            updateError_notifications updateStatus_notifications task_simps)
  next
    case (Inr func)
    show ?thesis
    proof (cases "postMessage_throws env")
      case (Some p)
      obtain n m where p: "p = (n, m)" by (cases p)
      show ?thesis using assms None Inr Some p
        by (simp add: start_try_post_throws [of env c0 func n m] start_catch_task
              updateError_notifications updateStatus_notifications task_simps)
    next
      case None': None
      show ?thesis using assms None Inr None'
        by (simp add: start_try_posted [of env c0 func]
              updateError_notifications updateStatus_notifications task_simps)
    qed
  qed
qed

lemma start_status_changes:
  assumes "startable me"
  shows "changes_of ''status'' (notified_since me (task (start env state me))) =
      (if new_Worker_throws env \<noteq> None \<or> isl (decompose env (f_FUNC me))
       then [status_note WaitingToRun, status_note Faulted]
       else if postMessage_throws env \<noteq> None
       then [status_note WaitingToRun, status_note Running, status_note Faulted]
       else [status_note WaitingToRun, status_note Running])"
    and "changes_of ''error'' (notified_since me (task (start env state me))) =
      (if f_error (task (start env state me)) \<noteq> f_error me
       then [f_error (task (start env state me))] else [])"
proof -
  let ?c0 = "\<lparr>task = me, promise = None, worker = None\<rparr>"
  have w: "Some WaitingToRun \<noteq> f_status (task ?c0)" using assms by (auto simp: startable_def)
  note n = start_try_status_notes [OF w, of env state, simplified]
  show "changes_of ''status'' (notified_since me (task (start env state me))) =
      (if new_Worker_throws env \<noteq> None \<or> isl (decompose env (f_FUNC me))
       then [status_note WaitingToRun, status_note Faulted]
       else if postMessage_throws env \<noteq> None
       then [status_note WaitingToRun, status_note Running, status_note Faulted]
       else [status_note WaitingToRun, status_note Running])"
    unfolding start_startable [OF assms]
    by (subst notified_since_append [OF n]) (simp add: changes_of_simps)
  show "changes_of ''error'' (notified_since me (task (start env state me))) =
      (if f_error (task (start env state me)) \<noteq> f_error me
       then [f_error (task (start env state me))] else [])"
    unfolding start_startable [OF assms]
    by (subst notified_since_append [OF n]) (simp add: changes_of_simps)
qed

lemma start_conflict_changes:
  assumes "\<not> startable me"
  shows "changes_of ''status'' (notified_since me (task (start env state me))) = []"
    and "changes_of ''error'' (notified_since me (task (start env state me))) =
      (if f_error (task (start env state me)) \<noteq> f_error me
       then [f_error (task (start env state me))] else [])"
proof -
  have n: "notifications (task (start env state me)) =
      notifications me @ (if f_error (task (start env state me)) \<noteq> f_error me
         then [(''error'', f_error (task (start env state me)))] else [])"
    by (simp add: start_not_startable [OF assms] task_simps updateError_notifications)
  show "changes_of ''status'' (notified_since me (task (start env state me))) = []"
    by (subst notified_since_append [OF n]) (simp add: changes_of_simps)
  show "changes_of ''error'' (notified_since me (task (start env state me))) =
      (if f_error (task (start env state me)) \<noteq> f_error me
       then [f_error (task (start env state me))] else [])"
    by (subst notified_since_append [OF n]) (simp add: changes_of_simps)
qed

lemma worker_onerror_changes:
  "changes_of ''status'' (notified_since (task c) (task (worker_onerror state err c))) =
      (if f_status (task c) = Some Faulted then [] else [status_note Faulted])"
  "changes_of ''error'' (notified_since (task c) (task (worker_onerror state err c))) =
      (if err \<noteq> f_error (task c) then [err] else [])"
proof -
  have n: "notifications (task (worker_onerror state err c)) =
      notifications (task c)
        @ ((if f_status (task c) = Some Faulted then [] else [(''status'', status_note Faulted)])
           @ (if err \<noteq> f_error (task c) then [(''error'', err)] else []))"
    by (auto simp: worker_onerror_task updateError_notifications updateStatus_notifications task_simps)
  show "changes_of ''status'' (notified_since (task c) (task (worker_onerror state err c))) =
      (if f_status (task c) = Some Faulted then [] else [status_note Faulted])"
    by (subst notified_since_append [OF n]) (simp add: changes_of_simps)
  show "changes_of ''error'' (notified_since (task c) (task (worker_onerror state err c))) =
      (if err \<noteq> f_error (task c) then [err] else [])"
    by (subst notified_since_append [OF n]) (simp add: changes_of_simps)
qed

lemma worker_onmessage_changes:
  "changes_of ''status'' (notified_since (task c) (task (worker_onmessage grammar state d c))) =
      (if received grammar d = None \<or> f_status (task c) = Some RanToCompletion then []
       else [status_note RanToCompletion])"
  "changes_of ''error'' (notified_since (task c) (task (worker_onmessage grammar state d c))) =
      (if received grammar d = None \<or> f_error (task c) = JNull then [] else [JNull])"
proof -
  have n: "notifications (task (worker_onmessage grammar state d c)) =
      notifications (task c)
        @ ((if received grammar d = None \<or> f_status (task c) = Some RanToCompletion then []
            else [(''status'', status_note RanToCompletion)])
           @ (if received grammar d = None \<or> f_error (task c) = JNull then []
              else [(''error'', JNull)]))"
    by (cases "received grammar d")
      (auto simp: worker_onmessage_throws worker_onmessage_result
         updateError_notifications updateStatus_notifications task_simps)
  show "changes_of ''status'' (notified_since (task c) (task (worker_onmessage grammar state d c))) =
      (if received grammar d = None \<or> f_status (task c) = Some RanToCompletion then []
       else [status_note RanToCompletion])"
    by (subst notified_since_append [OF n]) (simp add: changes_of_simps)
  show "changes_of ''error'' (notified_since (task c) (task (worker_onmessage grammar state d c))) =
      (if received grammar d = None \<or> f_error (task c) = JNull then [] else [JNull])"
    by (subst notified_since_append [OF n]) (simp add: changes_of_simps)
qed

subsection \<open>Starting a task that is already started\<close>

text \<open>
  Claim C1. For every task whose status is \<open>WaitingToRun\<close> or \<open>Running\<close>,
  \<open>start\<close> has settled its promise when it returns: rejected, with an \<^verbatim>\<open>Error\<close> that
  names the status, in the envelope of error and state. The status is what it was and no
  worker has been created.
\<close>

theorem start_state_conflict:
  "f_status me = Some WaitingToRun \<or> f_status me = Some Running \<Longrightarrow>
     promise (start env state me) =
       Some (Rejected (JError (fresh_ref env) ''Error''
               (''Cannot start while in '' @ [CHR 0x27] @ TaskStatus_name (f_status me)
                  @ [CHR 0x27] @ '' state!'')) state)
     \<and> f_status (task (start env state me)) = f_status me
     \<and> worker (start env state me) = None"
  by (auto simp: start_def task_simps settle_def)

theorem start_state_conflict_witness:
  "f_status example_running = Some Running
   \<and> promise (start example_env (JNum 1) example_running) =
       Some (Rejected (JError 7 ''Error'' ''Cannot start while in 'Running' state!'') (JNum 1))
   \<and> f_status (task (start example_env (JNum 1) example_running)) = Some Running
   \<and> worker (start example_env (JNum 1) example_running) = None"
  using start_state_conflict [of example_running example_env "JNum 1"]
  by (simp add: example_running_def example_env_def)

subsection \<open>One notification for each change\<close>

text \<open>
  Claim C7. \<open>updateStatus\<close> and \<open>updateError\<close> return true and append one
  notification exactly when the new value differs from the stored one; the field then
  holds the new value, and when the values are equal the task is as it was. During one
  \<open>start\<close> call every status entered is announced once: \<open>WaitingToRun\<close>, then
  \<open>Faulted\<close> when the worker cannot be created or the function cannot be decomposed,
  else \<open>Running\<close>, then \<open>Faulted\<close> when posting throws; nothing on a state
  conflict. The message handler announces \<open>RanToCompletion\<close> and the error handler
  \<open>Faulted\<close>, unless the task is already there. The error is announced once by an
  operation exactly when that operation has changed it.
\<close>

theorem one_notification_per_change:
  "snd (updateStatus v t) = (Some v \<noteq> f_status t)
   \<and> notifications (fst (updateStatus v t)) =
       notifications t
         @ (if Some v \<noteq> f_status t then [(''status'', JNum (TaskStatus_value v))] else [])
   \<and> f_status (fst (updateStatus v t)) = Some v
   \<and> (Some v = f_status t \<longrightarrow> fst (updateStatus v t) = t)
   \<and> snd (updateError x t) = (x \<noteq> f_error t)
   \<and> notifications (fst (updateError x t)) =
       notifications t @ (if x \<noteq> f_error t then [(''error'', x)] else [])
   \<and> f_error (fst (updateError x t)) = x
   \<and> (x = f_error t \<longrightarrow> fst (updateError x t) = t)
   \<and> (startable me \<longrightarrow>
        changes_of ''status'' (notified_since me (task (start env state me))) =
          (if new_Worker_throws env \<noteq> None \<or> isl (decompose env (f_FUNC me))
           then [status_note WaitingToRun, status_note Faulted]
           else if postMessage_throws env \<noteq> None
           then [status_note WaitingToRun, status_note Running, status_note Faulted]
           else [status_note WaitingToRun, status_note Running]))
   \<and> (\<not> startable me \<longrightarrow>
        changes_of ''status'' (notified_since me (task (start env state me))) = [])
   \<and> changes_of ''error'' (notified_since me (task (start env state me))) =
        (if f_error (task (start env state me)) \<noteq> f_error me
         then [f_error (task (start env state me))] else [])
   \<and> changes_of ''status'' (notified_since (task c) (task (worker_onmessage grammar state d c))) =
        (if received grammar d = None \<or> f_status (task c) = Some RanToCompletion then []
         else [status_note RanToCompletion])
   \<and> changes_of ''error'' (notified_since (task c) (task (worker_onmessage grammar state d c))) =
        (if received grammar d = None \<or> f_error (task c) = JNull then [] else [JNull])
   \<and> changes_of ''status'' (notified_since (task c) (task (worker_onerror state err c))) =
        (if f_status (task c) = Some Faulted then [] else [status_note Faulted])
   \<and> changes_of ''error'' (notified_since (task c) (task (worker_onerror state err c))) =
        (if err \<noteq> f_error (task c) then [err] else [])"
proof -
  have a: "snd (updateStatus v t) = (Some v \<noteq> f_status t)"
    by (simp add: updateStatus_def)
  have b: "notifications (fst (updateStatus v t)) =
       notifications t
         @ (if Some v \<noteq> f_status t then [(''status'', JNum (TaskStatus_value v))] else [])"
    by (simp add: updateStatus_def)
  have c: "Some v = f_status t \<longrightarrow> fst (updateStatus v t) = t"
    by (simp add: updateStatus_def)
  have d: "snd (updateError x t) = (x \<noteq> f_error t)"
    by (simp add: updateError_def)
  have e: "x = f_error t \<longrightarrow> fst (updateError x t) = t"
    by (simp add: updateError_def)
  have f: "changes_of ''error'' (notified_since me (task (start env state me))) =
        (if f_error (task (start env state me)) \<noteq> f_error me
         then [f_error (task (start env state me))] else [])"
  proof (cases "startable me")
    case True
    then show ?thesis by (rule start_status_changes(2))
  next
    case False
    then show ?thesis by (rule start_conflict_changes(2))
  qed
  have g: "startable me \<longrightarrow>
        changes_of ''status'' (notified_since me (task (start env state me))) =
          (if new_Worker_throws env \<noteq> None \<or> isl (decompose env (f_FUNC me))
           then [status_note WaitingToRun, status_note Faulted]
           else if postMessage_throws env \<noteq> None
           then [status_note WaitingToRun, status_note Running, status_note Faulted]
           else [status_note WaitingToRun, status_note Running])"
    using start_status_changes(1) [of me env state] by blast
  have h: "\<not> startable me \<longrightarrow>
        changes_of ''status'' (notified_since me (task (start env state me))) = []"
    using start_conflict_changes(1) [of me env state] by blast
  show ?thesis
    by (intro conjI a b c d e f g h updateStatus_status updateError_error
          updateError_notifications worker_onmessage_changes worker_onerror_changes)
qed

theorem one_notification_per_change_witness:
  "snd (updateStatus Running example_running) = False
   \<and> fst (updateStatus Running example_running) = example_running
   \<and> snd (updateStatus Faulted example_running) = True
   \<and> snd (updateError JUndefined example_running) = False
   \<and> fst (updateError JUndefined example_running) = example_running
   \<and> startable example_created
   \<and> changes_of ''status''
        (notified_since example_created (task (start example_env (JNum 30) example_created))) =
       [JNum 4, JNum 3]
   \<and> \<not> startable example_running
   \<and> changes_of ''status''
        (notified_since example_running (task (start example_env (JNum 1) example_running))) = []"
proof -
  have s: "startable example_created" by (simp add: startable_def example_created_def)
  have r: "\<not> startable example_running" by (simp add: startable_def example_running_def)
  have d: "\<not> isl (decompose example_env (f_FUNC example_created))"
    by (simp add: decompose_def example_created_def match_here_def)
  note t1 = one_notification_per_change [of Running example_running JUndefined example_created
      example_env "JNum 30" example_pending "\<lambda>s. None" JUndefined JNull]
  note t2 = one_notification_per_change [of Faulted example_running JUndefined example_running
      example_env "JNum 1" example_pending "\<lambda>s. None" JUndefined JNull]
  have e1: "f_status example_running = Some Running" "f_error example_running = JUndefined"
    by (simp_all add: example_running_def)
  from t1 s d have c1: "changes_of ''status''
        (notified_since example_created (task (start example_env (JNum 30) example_created))) =
       [JNum 4, JNum 3]"
    by (simp add: example_env_def status_note_def)
  from t2 r have c2: "changes_of ''status''
        (notified_since example_running (task (start example_env (JNum 1) example_running))) = []"
    by simp
  from t1 e1 have u1: "snd (updateStatus Running example_running) = False"
    "fst (updateStatus Running example_running) = example_running"
    "snd (updateError JUndefined example_running) = False"
    "fst (updateError JUndefined example_running) = example_running"
    by simp_all
  from t2 e1 have u2: "snd (updateStatus Faulted example_running) = True" by simp
  show ?thesis using s r c1 c2 u1 u2 by simp
qed

subsection \<open>When the error property changes\<close>

lemma example_running_fields:
  "f_status example_running = Some Running" "f_error example_running = JUndefined"
  "\<not> startable example_running"
  by (simp_all add: example_running_def startable_def)

text \<open>
  Claim C2 has the error property change only when the status goes to \<open>Faulted\<close>
  or a \<open>start\<close> call succeeds, and the source documents the property as the error
  of the last execution. A second \<open>start\<close> on a running task runs nothing: the guard
  rejects it. But the guard settles through \<open>completed\<close>, which updates the error: at
  the running task below, whose error is \<^verbatim>\<open>undefined\<close>, the error property becomes the
  state-conflict error while the status stays \<open>Running\<close>.
\<close>

theorem error_set_without_fault:
  "f_status example_running = Some Running
   \<and> f_error example_running = JUndefined
   \<and> f_status (task (start example_env (JNum 1) example_running)) = Some Running
   \<and> f_error (task (start example_env (JNum 1) example_running)) =
       JError 7 ''Error'' ''Cannot start while in 'Running' state!''"
  by (simp add: start_conflict [OF example_running_fields(3)] example_running_fields(1,2)
        example_env_def)

subsection \<open>The worker after its response\<close>

lemma example_pending_fields:
  "task example_pending = example_running" "promise example_pending = None"
  "worker example_pending =
     Some \<lparr>script = ''./worker'', terminated = False,
           posted = [\<lparr>m_func = Some \<lparr>body = '' return ctx.state; '', args = [''ctx'']\<rparr>,
                      m_state = JNum 30\<rparr>]\<rparr>"
  by (simp_all add: example_pending_def)

lemma example_pending_is_start:
  "start example_env (JNum 30) example_created = example_pending"
  by (simp add: start_def start_try_def Let_def example_created_def example_env_def
        example_pending_def example_running_def updateStatus_def decompose_def match_here_def
        func_args_def strip_white_space_def is_white_space_def strip_to_paren_def)

text \<open>
  Claim C3 asks that the worker be terminated after its response, success or failure.
  The message handler does terminate it. The error handler does not: at the pending call
  below, the error \<^verbatim>\<open>boom\<close> of the worker rejects the promise and sets the status to
  \<open>Faulted\<close>, and the worker is left as it was, not terminated.
\<close>

theorem onerror_leaves_worker_running:
  "promise (worker_onerror (JNum 30) (JError 8 ''Error'' ''boom'') example_pending) =
     Some (Rejected (JError 8 ''Error'' ''boom'') (JNum 30))
   \<and> f_status (task (worker_onerror (JNum 30) (JError 8 ''Error'' ''boom'') example_pending)) =
       Some Faulted
   \<and> map_option terminated
       (worker (worker_onerror (JNum 30) (JError 8 ''Error'' ''boom'') example_pending)) =
       Some False
   \<and> map_option terminated
       (worker (worker_onmessage grammar (JNum 30) JUndefined example_pending)) =
       Some True"
  by (simp add: worker_onerror_promise worker_onerror_task worker_onerror_worker
        worker_onmessage_worker example_pending_fields task_simps settle_def terminate_def)

subsection \<open>The payload of the success message\<close>

lemma received_falsy:
  "received grammar JUndefined = Some JUndefined"
  "received grammar JNull = Some JNull"
  "received grammar (JStr []) = Some (JStr [])"
  by (simp_all add: received_def)

lemma JSON_parse_not_a_text:
  "JSON_parse grammar JUndefined = None"
  "JSON_parse grammar (JStr []) = None"
  by (simp_all add: JSON_parse_def starts_json_value_def)

lemma worker_onmessage_js_throws:
  "JSON_parse grammar msg_data = None \<Longrightarrow>
     worker_onmessage_js grammar state msg_data c =
       c\<lparr>worker := map_option terminate (worker c),
         task := fst (updateStatus RanToCompletion (task c))\<rparr>"
  by (simp add: worker_onmessage_js_def Let_def)

text \<open>
  Claim C5 asks that an empty or absent payload give no parse failure. The handler of
  \<^verbatim>\<open>index.ts\<close> leaves a falsy payload unparsed and resolves with it as the data:
  \<^verbatim>\<open>undefined\<close> and \<^verbatim>\<open>null\<close> stay what they are, and so does the empty string.
  The handler of the compiled \<^verbatim>\<open>index.js\<close> parses every payload: on an absent or
  empty one \<^verbatim>\<open>JSON.parse\<close> throws under every grammar, after the status has become
  \<open>RanToCompletion\<close>, and the promise stays pending.
\<close>

theorem compiled_onmessage_throws_on_absent_payload:
  "promise (worker_onmessage_js grammar (JNum 30) JUndefined example_pending) = None
   \<and> f_status (task (worker_onmessage_js grammar (JNum 30) JUndefined example_pending)) =
       Some RanToCompletion
   \<and> promise (worker_onmessage_js grammar (JNum 30) (JStr []) example_pending) = None
   \<and> promise (worker_onmessage grammar (JNum 30) JUndefined example_pending) =
       Some (Resolved JUndefined (JNum 30))
   \<and> promise (worker_onmessage grammar (JNum 30) JNull example_pending) =
       Some (Resolved JNull (JNum 30))
   \<and> promise (worker_onmessage grammar (JNum 30) (JStr []) example_pending) =
       Some (Resolved (JStr []) (JNum 30))"
  by (simp add: worker_onmessage_js_throws [OF JSON_parse_not_a_text(1)]
        worker_onmessage_js_throws [OF JSON_parse_not_a_text(2)]
        worker_onmessage_result [OF received_falsy(1)]
        worker_onmessage_result [OF received_falsy(2)]
        worker_onmessage_result [OF received_falsy(3)]
        example_pending_fields task_simps settle_def)

subsection \<open>A default value with a comma\<close>

text \<open>
  Claim C9. For the source \<^verbatim>\<open>function (a = f(1,2), b) { return 0; }\<close> the extraction
  of the parameters gives \<^verbatim>\<open>a\<close>, \<^verbatim>\<open>2)\<close>, \<^verbatim>\<open>b\<close>: the pattern that strips
  the defaults stops at the first comma, inside the default expression.
\<close>

theorem default_with_comma_splits:
  "func_args ''function (a = f(1,2), b) { return 0; }'' = [''a'', ''2)'', ''b'']
   \<and> strip_defaults False ''a=f(1,2),b'' = ''a,2),b''"
  by (simp add: func_args_def strip_white_space_def is_white_space_def strip_to_paren_def)

subsection \<open>Construction\<close>

text \<open>
  Claim C10. The constructor sets the status through \<open>updateStatus\<close>: a task that has
  been constructed has emitted exactly one notification, of the property
  \<^verbatim>\<open>status\<close> with the value of \<open>Created\<close>; its status is \<open>Created\<close> and its error
  is \<^verbatim>\<open>undefined\<close>.
\<close>

theorem constructor_notifies_Created:
  "Task_new func = Inr t \<Longrightarrow>
     notifications t = [(''status'', JNum (TaskStatus_value Created))]
     \<and> f_status t = Some Created \<and> f_error t = JUndefined"
  by (auto simp: Task_new_def updateStatus_def split: if_splits)

theorem constructor_notifies_Created_witness:
  "Task_new (JFunc ''function (ctx) { return ctx.state; }'') = Inr example_created
   \<and> notifications example_created = [(''status'', JNum 0)]
   \<and> f_status example_created = Some Created \<and> f_error example_created = JUndefined"
proof -
  have c: "Task_new (JFunc ''function (ctx) { return ctx.state; }'') = Inr example_created"
    by (simp add: Task_new_def updateStatus_def example_created_def isNullOrUndefined_def)
  from constructor_notifies_Created [OF c] c show ?thesis by simp
qed

text \<open>
  Claim C8. The constructor (and \<open>newTask\<close>, which is the constructor) throws exactly
  when the value is neither \<^verbatim>\<open>undefined\<close> nor \<^verbatim>\<open>null\<close> and is not a function, and
  what it throws is the string of the source. Otherwise the task holds that value as its
  function, in status \<open>Created\<close>, with the notification of \<open>Created\<close> as its only
  one: nothing of \<open>start\<close> has run. No operation changes the function: \<open>start\<close>
  and the two handlers leave it as it is.
\<close>

theorem construction_throws_iff:
  "(Task_new func = Inl (JStr '''func' must be a function!'')
      \<longleftrightarrow> func \<noteq> JUndefined \<and> func \<noteq> JNull \<and> typeof func \<noteq> ''function'')
   \<and> ((\<exists>e. Task_new func = Inl e)
      \<longleftrightarrow> func \<noteq> JUndefined \<and> func \<noteq> JNull \<and> typeof func \<noteq> ''function'')
   \<and> newTask func = Task_new func
   \<and> (\<forall>t. Task_new func = Inr t \<longrightarrow>
        f_FUNC t = func \<and> f_status t = Some Created
        \<and> notifications t = [(''status'', JNum (TaskStatus_value Created))])
   \<and> f_FUNC (task (start env state me)) = f_FUNC me
   \<and> f_FUNC (task (worker_onmessage grammar state d c)) = f_FUNC (task c)
   \<and> f_FUNC (task (worker_onerror state err c)) = f_FUNC (task c)"
proof -
  have a: "Task_new func = Inl (JStr '''func' must be a function!'')
      \<longleftrightarrow> func \<noteq> JUndefined \<and> func \<noteq> JNull \<and> typeof func \<noteq> ''function''"
    by (simp add: Task_new_def isNullOrUndefined_def)
  have b: "(\<exists>e. Task_new func = Inl e)
      \<longleftrightarrow> func \<noteq> JUndefined \<and> func \<noteq> JNull \<and> typeof func \<noteq> ''function''"
    by (simp add: Task_new_def isNullOrUndefined_def)
  have c: "\<forall>t. Task_new func = Inr t \<longrightarrow>
        f_FUNC t = func \<and> f_status t = Some Created
        \<and> notifications t = [(''status'', JNum (TaskStatus_value Created))]"
    by (auto simp: Task_new_def updateStatus_def split: if_splits)
  have d: "f_FUNC (task (worker_onerror state err c)) = f_FUNC (task c)"
    by (simp add: worker_onerror_task task_simps)
  show ?thesis
    by (intro conjI a b c d start_FUNC worker_onmessage_FUNC) (simp add: newTask_def)
qed

theorem construction_throws_iff_witness:
  "Task_new (JNum 3) = Inl (JStr '''func' must be a function!'')
   \<and> Task_new (JFunc ''function (ctx) { return ctx.state; }'') = Inr example_created
   \<and> f_FUNC example_created = JFunc ''function (ctx) { return ctx.state; }''
   \<and> f_status example_created = Some Created
   \<and> Task_new JUndefined \<noteq> Inl (JStr '''func' must be a function!'')
   \<and> Task_new JNull \<noteq> Inl (JStr '''func' must be a function!'')"
proof -
  have c: "Task_new (JFunc ''function (ctx) { return ctx.state; }'') = Inr example_created"
    by (simp add: Task_new_def updateStatus_def example_created_def isNullOrUndefined_def)
  note t1 = construction_throws_iff [where func = "JNum 3"]
  note t2 = construction_throws_iff [where func = "JFunc ''function (ctx) { return ctx.state; }''"]
  note t3 = construction_throws_iff [where func = JUndefined]
  note t4 = construction_throws_iff [where func = JNull]
  have u: "Task_new JUndefined \<noteq> Inl (JStr '''func' must be a function!'')" using t3 by simp
  have n: "Task_new JNull \<noteq> Inl (JStr '''func' must be a function!'')" using t4 by simp
  have i: "Task_new (JNum 3) = Inl (JStr '''func' must be a function!'')" using t1 by simp
  from t2 c have f: "f_FUNC example_created = JFunc ''function (ctx) { return ctx.state; }''"
      "f_status example_created = Some Created" by simp_all
  show ?thesis using c u n i f by simp
qed

subsection \<open>Starting a new task with an arrow function\<close>

lemma literal_match:
  "match_body ''function (ctx) { return 1000 + 200*ctx.state + 7; }'' =
     Some '' return 1000 + 200*ctx.state + 7; ''"
  by (simp add: match_here_def)

lemma literal_args:
  "func_args ''function (ctx) { return 1000 + 200*ctx.state + 7; }'' = [''ctx'']"
  by (simp add: func_args_def strip_white_space_def is_white_space_def strip_to_paren_def)

lemma arrow_no_match: "match_body ''ctx => 1000 + 200*ctx.state + 7'' = None"
  by (simp add: match_here_def)

lemma literal_decompose:
  "decompose env (JFunc ''function (ctx) { return 1000 + 200*ctx.state + 7; }'') =
     Inr (Some \<lparr>body = '' return 1000 + 200*ctx.state + 7; '', args = [''ctx'']\<rparr>)"
  unfolding decompose_def by (simp only: truthy.simps ToString.simps Let_def literal_match literal_args if_True option.case)

lemma arrow_decompose:
  "decompose env (JFunc ''ctx => 1000 + 200*ctx.state + 7'') =
     Inl (JError (fresh_ref env) ''TypeError'' (TypeError_message env))"
  unfolding decompose_def by (simp only: truthy.simps ToString.simps Let_def arrow_no_match if_True option.case)

lemma Task_new_function:
  "Task_new (JFunc src) =
     Inr \<lparr>f_FUNC = JFunc src, f_error = JUndefined, f_status = Some Created,
          notifications = [(''status'', JNum 0)]\<rparr>"
  by (simp add: Task_new_def updateStatus_def isNullOrUndefined_def)

text \<open>
  Claim C4 starts a new task with the arrow function
  \<^verbatim>\<open>ctx => 1000 + 200*ctx.state + 7\<close> and the state 30 and expects the data 6007. The
  source text of an arrow function has no \<^verbatim>\<open>function\<close> keyword: the pattern for the
  body does not match, indexing the \<^verbatim>\<open>null\<close> throws inside the try block, and
  \<open>startNew\<close> returns a promise rejected with that \<^verbatim>\<open>TypeError\<close> and the state 30;
  the status is \<open>Faulted\<close> and nothing has been posted to the worker. The same
  computation written as a function literal is decomposed and posted, and its promise is
  pending.
\<close>

theorem startNew_arrow_function_faults:
  "startNew example_env (JFunc ''ctx => 1000 + 200*ctx.state + 7'') (JNum 30) =
     Inr \<lparr>task =
            \<lparr>f_FUNC = JFunc ''ctx => 1000 + 200*ctx.state + 7'',
             f_error = JError 7 ''TypeError'' ''null is not an object'',
             f_status = Some Faulted,
             notifications =
               [(''status'', JNum 0), (''status'', JNum 4), (''status'', JNum 1),
                (''error'', JError 7 ''TypeError'' ''null is not an object'')]\<rparr>,
          promise = Some (Rejected (JError 7 ''TypeError'' ''null is not an object'') (JNum 30)),
          worker = Some \<lparr>script = ''./worker'', terminated = False, posted = []\<rparr>\<rparr>
   \<and> startNew example_env (JFunc ''function (ctx) { return 1000 + 200*ctx.state + 7; }'')
       (JNum 30) =
     Inr \<lparr>task =
            \<lparr>f_FUNC = JFunc ''function (ctx) { return 1000 + 200*ctx.state + 7; }'',
             f_error = JUndefined, f_status = Some Running,
             notifications =
               [(''status'', JNum 0), (''status'', JNum 4), (''status'', JNum 3)]\<rparr>,
          promise = None,
          worker = Some \<lparr>script = ''./worker'', terminated = False,
            posted = [\<lparr>m_func = Some \<lparr>body = '' return 1000 + 200*ctx.state + 7; '',
                                      args = [''ctx'']\<rparr>,
                       m_state = JNum 30\<rparr>]\<rparr>\<rparr>"
  by (simp add: startNew_def newTask_def Task_new_function start_def start_try_def Let_def
        arrow_decompose literal_decompose example_env_def start_catch_def completed_def
        updateStatus_def updateError_def settle_def del: match_body.simps)

subsection \<open>Decomposition and reconstruction\<close>

lemma roundtrip_match:
  "match_body ''function(ctx){ return ctx.state + 1; }'' = Some '' return ctx.state + 1; ''"
  by (simp add: match_here_def)

lemma roundtrip_args: "func_args ''function(ctx){ return ctx.state + 1; }'' = [''ctx'']"
  by (simp add: func_args_def strip_white_space_def is_white_space_def strip_to_paren_def)

lemma lex_body:
  "lex '' return ctx.state + 1; '' =
     [TSpace, TWord ''return'', TSpace, TWord ''ctx'', TSym (CHR ''.''), TWord ''state'', TSpace,
      TSym (CHR ''+''), TSpace, TWord ''1'', TSym (CHR '';''), TSpace]"
  by (simp add: is_white_space_def is_word_char_def)

lemma valid_ctx: "valid_identifier ''ctx''"
  by (simp add: valid_identifier_def is_word_char_def is_digit_def reserved_words_def)

text \<open>
  Claim C6. For the source \<^verbatim>\<open>function(ctx){ return ctx.state + 1; }\<close> the
  decomposition gives the parameter names \<^verbatim>\<open>ctx\<close> and the body
  \<^verbatim>\<open> return ctx.state + 1; \<close>, and the callable with those parameters and that body,
  invoked with the context that holds the state 5, returns 6.
\<close>

theorem decompose_reconstruct_roundtrip:
  "decompose env (JFunc ''function(ctx){ return ctx.state + 1; }'') =
     Inr (Some \<lparr>body = '' return ctx.state + 1; '', args = [''ctx'']\<rparr>)
   \<and> invoke_reconstructed \<lparr>body = '' return ctx.state + 1; '', args = [''ctx'']\<rparr> (JNum 5) =
       Some (JNum 6)"
proof
  show "decompose env (JFunc ''function(ctx){ return ctx.state + 1; }'') =
     Inr (Some \<lparr>body = '' return ctx.state + 1; '', args = [''ctx'']\<rparr>)"
    unfolding decompose_def
    by (simp only: truthy.simps ToString.simps Let_def roundtrip_match roundtrip_args if_True
          option.case)
  show "invoke_reconstructed \<lparr>body = '' return ctx.state + 1; '', args = [''ctx'']\<rparr> (JNum 5) =
       Some (JNum 6)"
    unfolding invoke_reconstructed_def
    by (simp add: lex_body valid_ctx is_line_terminator_def operand_def number_literal_def
          is_digit_def safe_integer_def del: lex.simps)
qed

end
